theory Spec2Isabelle
  imports Complex_Main "HOL-Library.Multiset" "HOL-Library.Sublist" "HOL-Library.Log_Nat"
begin

section \<open>Values shared by the components\<close>

text \<open>
  The Python dictionaries of the program carry values of several dynamic types. The
  metadata of a retrieved chunk holds identifiers and page locators: \<open>None\<close>, integers
  and strings.
\<close>

datatype pyval = PNone | PInt int | PStr string

subsection \<open>Floats\<close>

text \<open>
  A Python float is an IEEE 754 binary64 number. A finite float is kept as the rational
  number it denotes; the infinities and nan have no counterpart, so a result beyond the
  largest float is outside the model. \<open>nearest_double x\<close> is
  the float nearest to \<open>x\<close>, with ties to the even significand and with the subnormal
  numbers below the binary exponent -1022: it is the value of a float literal, and the
  result of an arithmetic operation on floats is the nearest float to the exact result.
\<close>

definition pow2 :: "int \<Rightarrow> rat" where
  "pow2 e = (if 0 \<le> e then 2 ^ nat e else 1 / 2 ^ nat (- e))"

text \<open>For \<open>a > 0\<close>, the exponent \<open>e\<close> with \<open>pow2 e \<le> a < pow2 (e + 1)\<close>.\<close>

definition binary_exponent :: "rat \<Rightarrow> int" where
  "binary_exponent a =
     (let (p, q) = quotient_of a; d = bitlen p - bitlen q
      in if pow2 d \<le> a then d else d - 1)"

definition round_half_even :: "rat \<Rightarrow> int" where
  "round_half_even m =
     (let f = \<lfloor>m\<rfloor>; r = m - of_int f
      in if r < 1 / 2 then f else if 1 / 2 < r then f + 1 else if even f then f else f + 1)"

definition nearest_double :: "rat \<Rightarrow> rat" where
  "nearest_double x =
     (if x = 0 then 0
      else let e = max (binary_exponent \<bar>x\<bar>) (- 1022); ulp = pow2 (e - 52)
           in of_int (round_half_even (x / ulp)) * ulp)"

text \<open>\<open>x + y\<close> on floats.\<close>

definition float_add :: "rat \<Rightarrow> rat \<Rightarrow> rat" where
  "float_add x y = nearest_double (x + y)"

text \<open>
  \<open>sum(xs)\<close> on a list of floats: starting from the integer 0, the elements are added
  from left to right, each addition rounding (CPython up to version 3.11; later versions
  also carry a correction term for the rounding errors through the loop).
\<close>

definition py_sum :: "rat list \<Rightarrow> rat" where
  "py_sum xs = foldl float_add 0 xs"

text \<open>\<open>x / n\<close> for a float \<open>x\<close> and an integer \<open>n\<close>: \<open>n\<close> is converted to a float first.\<close>

definition py_truediv :: "rat \<Rightarrow> nat \<Rightarrow> rat" where
  "py_truediv x n = nearest_double (x / nearest_double (of_nat n))"

fun str_nat :: "nat \<Rightarrow> string" where
  "str_nat n = (if n < 10 then [char_of (48 + n)]
                else str_nat (n div 10) @ [char_of (48 + n mod 10)])"

declare str_nat.simps [simp del]

text \<open>\<open>py_str\<close> is what an f-string writes for a value: \<open>str(v)\<close>.\<close>

fun py_str :: "pyval \<Rightarrow> string" where
  "py_str PNone = ''None''"
| "py_str (PInt i) = (if i < 0 then ''-'' @ str_nat (nat (- i)) else str_nat (nat i))"
| "py_str (PStr s) = s"

text \<open>\<open>d.get(k, default)\<close> on a dictionary kept as an association list.\<close>

definition dict_get :: "(string \<times> pyval) list \<Rightarrow> string \<Rightarrow> pyval \<Rightarrow> pyval" where
  "dict_get d k dflt = (case map_of d k of None \<Rightarrow> dflt | Some v \<Rightarrow> v)"

text \<open>\<open>sep.join(xs)\<close>.\<close>

fun str_join :: "string \<Rightarrow> string list \<Rightarrow> string" where
  "str_join sep [] = []"
| "str_join sep [x] = x"
| "str_join sep (x # y # ys) = x @ sep @ str_join sep (y # ys)"

text \<open>
  A retrieved context: \<open>ctx['content']\<close>, \<open>ctx['metadata']\<close> (both always present) and
  the optional key \<open>similarity_score\<close>, read with \<open>ctx.get('similarity_score', 0.0)\<close>.
\<close>

record context_chunk =
  content :: string
  metadata :: "(string \<times> pyval) list"
  similarity_score :: "rat option"

text \<open>A source attribution, the dictionary with keys \<open>id\<close>, \<open>file\<close>, \<open>page\<close>, \<open>similarity\<close>
  (fields \<open>source_id\<close> and \<open>src_file\<close> for the first two).\<close>

record source_attr =
  source_id :: nat
  src_file :: pyval
  page :: pyval
  similarity :: rat

text \<open>
  The response dictionary. \<open>generate_response\<close> sets \<open>answer\<close>, \<open>sources\<close>, \<open>model\<close>,
  \<open>num_contexts_used\<close> and \<open>avg_similarity\<close>; \<open>RAGSystem.query\<close> adds \<open>question\<close> and,
  on the synthesized branch, \<open>retrieved_contexts\<close>. A key that a path does not set is
  \<open>None\<close> here.
\<close>

record response =
  answer :: string
  sources :: "source_attr list"
  model :: "string option"
  num_contexts_used :: nat
  avg_similarity :: "rat option"
  question :: "string option"
  retrieved_contexts :: "context_chunk list option"

section \<open>llm\_client.py: GroqClient\<close>

text \<open>
  One request to \<open>client.chat.completions.create\<close>: the model, the content of the single
  user message, the temperature and the token limit.
\<close>

record llm_request =
  req_model :: string
  req_content :: string
  req_temperature :: rat
  req_max_tokens :: int

text \<open>
  The completion service is external. A call either raises an exception, of which the
  code uses \<open>str(e)\<close>, or returns the message contents of its choices. The client is a
  double of the service: \<open>create\<close> gives the outcome of a call from the requests made
  before it and the request itself, and \<open>calls\<close> logs every request that reached the
  service.
\<close>

datatype completion = Raised string | Choices "string list"

record groq_client =
  api_key :: string
  create :: "llm_request list \<Rightarrow> llm_request \<Rightarrow> completion"
  calls :: "llm_request list"

definition chat_completions_create ::
  "groq_client \<Rightarrow> llm_request \<Rightarrow> completion \<times> groq_client" where
  "chat_completions_create cl req = (create cl (calls cl) req, cl\<lparr>calls := calls cl @ [req]\<rparr>)"

text \<open>
  \<open>response.choices[0].message.content\<close> inside the \<open>try\<close>: an exception of the call and
  the IndexError of an empty choice list both reach the \<open>except\<close> branch, as \<open>Inl (str(e))\<close>.
\<close>

fun completion_content :: "completion \<Rightarrow> string + string" where
  "completion_content (Raised e) = Inl e"
| "completion_content (Choices []) = Inl ''list index out of range''"
| "completion_content (Choices (c # cs)) = Inr c"

definition ctx_source :: "context_chunk \<Rightarrow> pyval" where
  "ctx_source ctx = dict_get (metadata ctx) ''source_file'' (PStr ''Unknown'')"

definition ctx_page :: "context_chunk \<Rightarrow> pyval" where
  "ctx_page ctx = dict_get (metadata ctx) ''page'' (PStr ''N/A'')"

definition ctx_similarity :: "context_chunk \<Rightarrow> rat" where
  "ctx_similarity ctx = (case similarity_score ctx of None \<Rightarrow> 0 | Some s \<Rightarrow> s)"

text \<open>
  One numbered block of the prompt. \<open>pct\<close> stands for Python's float format \<open>.1%\<close>; the
  results below hold for every such function.
\<close>

definition format_context :: "(rat \<Rightarrow> string) \<Rightarrow> nat \<Rightarrow> context_chunk \<Rightarrow> string" where
  "format_context pct i ctx =
     ''['' @ str_nat i @ ''] (Source: '' @ py_str (ctx_source ctx) @ '', Page: '' @
     py_str (ctx_page ctx) @ '', Relevance: '' @ pct (ctx_similarity ctx) @ '')\<newline>'' @
     content ctx"

text \<open>The loop \<open>for i, ctx in enumerate(contexts, 1)\<close>, started with \<open>i = 1\<close>.\<close>

fun format_contexts :: "(rat \<Rightarrow> string) \<Rightarrow> nat \<Rightarrow> context_chunk list \<Rightarrow> string list" where
  "format_contexts pct i [] = []"
| "format_contexts pct i (ctx # rest) =
     format_context pct i ctx # format_contexts pct (Suc i) rest"

definition prompt_head :: string where
  "prompt_head =
     ''You are a helpful AI assistant. Answer the user's question based ONLY on the provided context from PDF documents.\<newline>'' @
     ''\<newline>'' @
     ''IMPORTANT INSTRUCTIONS:\<newline>'' @
     ''1. Only use information from the context below\<newline>'' @
     ''2. Cite sources using [1], [2], [3] format after relevant statements\<newline>'' @
     ''3. If the context doesn't contain enough information, clearly state that\<newline>'' @
     ''4. Be concise but comprehensive\<newline>'' @
     ''5. If you're uncertain, express appropriate confidence levels\<newline>'' @
     ''\<newline>'' @
     ''CONTEXT:\<newline>''"

definition build_prompt :: "(rat \<Rightarrow> string) \<Rightarrow> string \<Rightarrow> context_chunk list \<Rightarrow> string" where
  "build_prompt pct query contexts =
     prompt_head @ str_join ''\<newline>\<newline>'' (format_contexts pct 1 contexts) @
     ''\<newline>\<newline>QUESTION: '' @ query @ ''\<newline>\<newline>ANSWER (with citations):''"

text \<open>The comprehension over \<open>enumerate(contexts)\<close>, started with \<open>i = 0\<close>; the id is \<open>i + 1\<close>.\<close>

fun extract_sources :: "nat \<Rightarrow> context_chunk list \<Rightarrow> source_attr list" where
  "extract_sources i [] = []"
| "extract_sources i (ctx # rest) =
     \<lparr>source_id = i + 1, src_file = ctx_source ctx, page = ctx_page ctx,
      similarity = ctx_similarity ctx\<rparr> # extract_sources (Suc i) rest"

text \<open>\<open>sum(s['similarity'] for s in sources) / len(sources) if sources else 0.0\<close>.\<close>

definition sources_avg_similarity :: "source_attr list \<Rightarrow> rat" where
  "sources_avg_similarity srcs =
     (if srcs \<noteq> [] then py_truediv (py_sum (map similarity srcs)) (length srcs) else 0)"

definition no_context_answer :: string where
  "no_context_answer =
     ''I couldn't find any relevant information in the documents to answer your question.''"

definition generate_response ::
  "(rat \<Rightarrow> string) \<Rightarrow> groq_client \<Rightarrow> string \<Rightarrow> context_chunk list \<Rightarrow> string \<Rightarrow> rat \<Rightarrow> int \<Rightarrow>
   response \<times> groq_client" where
  "generate_response pct cl query contexts mdl temperature max_tokens =
     (if contexts = [] then
        (\<lparr>answer = no_context_answer, sources = [], model = Some mdl,
          num_contexts_used = 0, avg_similarity = Some 0, question = None,
          retrieved_contexts = None\<rparr>, cl)
      else
        let prompt = build_prompt pct query contexts;
            (result, cl') = chat_completions_create cl
               \<lparr>req_model = mdl, req_content = prompt, req_temperature = temperature,
                req_max_tokens = max_tokens\<rparr>
        in case completion_content result of
             Inr text \<Rightarrow>
               let srcs = extract_sources 0 contexts
               in (\<lparr>answer = text, sources = srcs, model = Some mdl,
                    num_contexts_used = length contexts,
                    avg_similarity = Some (sources_avg_similarity srcs), question = None,
                    retrieved_contexts = None\<rparr>, cl')
           | Inl e \<Rightarrow>
               (\<lparr>answer = ''Error generating response: '' @ e, sources = [],
                 model = Some mdl, num_contexts_used = 0, avg_similarity = Some 0,
                 question = None, retrieved_contexts = None\<rparr>, cl'))"

section \<open>rag\_system.py: RAGSystem\<close>

text \<open>
  The vector store and the embedding manager are used by the program only through the
  attributes that \<open>save_config_json\<close> reads.
\<close>

record vector_store =
  persist_directory :: string
  collection_name :: string
  collection_count :: nat

record embedding_manager =
  model_name :: string
  sentence_embedding_dimension :: nat

text \<open>An entry of \<open>conversation_history\<close>: keys \<open>question\<close>, \<open>answer\<close>, \<open>sources\<close>, \<open>num_contexts\<close>.\<close>

record conversation =
  conv_question :: string
  conv_answer :: string
  conv_sources :: "source_attr list"
  conv_num_contexts :: nat

text \<open>
  The module \<open>src/retriever.py\<close> is not among the sources. \<open>retriever\<close> stands for
  \<open>self.retriever.retrieve(question, top_k=..., score_threshold=...)\<close>: it returns the
  contexts, or \<open>Inl\<close> the exception it raises, which \<open>query\<close> does not catch.
\<close>

record rag_system =
  vector_store :: vector_store
  embedding_manager :: embedding_manager
  llm_client :: groq_client
  retriever :: "string \<Rightarrow> int \<Rightarrow> rat \<Rightarrow> string + context_chunk list"
  conversation_history :: "conversation list"

text \<open>The keyword arguments passed on to \<open>generate_response\<close>, with its defaults.\<close>

record llm_kwargs =
  kw_model :: "string option"
  kw_temperature :: "rat option"
  kw_max_tokens :: "int option"

definition default_model :: string where
  "default_model = ''llama-3.3-70b-versatile''"

definition call_generate_response ::
  "(rat \<Rightarrow> string) \<Rightarrow> groq_client \<Rightarrow> string \<Rightarrow> context_chunk list \<Rightarrow> llm_kwargs \<Rightarrow>
   response \<times> groq_client" where
  "call_generate_response pct cl q contexts kw =
     generate_response pct cl q contexts
       (case kw_model kw of None \<Rightarrow> default_model | Some m \<Rightarrow> m)
       (case kw_temperature kw of None \<Rightarrow> nearest_double (3 / 10) | Some t \<Rightarrow> t)
       (case kw_max_tokens kw of None \<Rightarrow> 1000 | Some k \<Rightarrow> k)"

definition history_entry :: "string \<Rightarrow> response \<Rightarrow> conversation" where
  "history_entry q r =
     \<lparr>conv_question = q, conv_answer = answer r, conv_sources = sources r,
      conv_num_contexts = num_contexts_used r\<rparr>"

definition query ::
  "(rat \<Rightarrow> string) \<Rightarrow> rag_system \<Rightarrow> string \<Rightarrow> int \<Rightarrow> rat \<Rightarrow> llm_kwargs \<Rightarrow>
   (string + response) \<times> rag_system" where
  "query pct rs q top_k score_threshold kw =
     (case retriever rs q top_k score_threshold of
        Inl e \<Rightarrow> (Inl e, rs)
      | Inr contexts \<Rightarrow>
          let (r, cl') =
                (if contexts = [] then
                   (\<lparr>answer = ''I could not find relevant information to answer this question.'',
                     sources = [], model = None, num_contexts_used = 0,
                     avg_similarity = None, question = Some q, retrieved_contexts = None\<rparr>,
                    llm_client rs)
                 else
                   let (r0, cl0) = call_generate_response pct (llm_client rs) q contexts kw
                   in (r0\<lparr>question := Some q, retrieved_contexts := Some contexts\<rparr>, cl0))
          in (Inr r,
              rs\<lparr>llm_client := cl',
                 conversation_history := conversation_history rs @ [history_entry q r]\<rparr>))"

definition clear_history :: "rag_system \<Rightarrow> rag_system" where
  "clear_history rs = rs\<lparr>conversation_history := []\<rparr>"

section \<open>saver.py: RAGSystemSaver\<close>

text \<open>
  The save directory holds JSON configuration files and SQLite database files. The file
  system is a pair of maps from paths: the names the saver builds end in
  \<open>_config.json\<close> and in \<open>_conversations.db\<close>, so no path belongs to both.
\<close>

record config =
  cfg_name :: string
  cfg_created_at :: string
  cfg_vs_path :: string
  cfg_vs_collection_name :: string
  cfg_vs_total_documents :: nat
  cfg_emb_model_name :: string
  cfg_emb_embedding_dim :: nat
  cfg_llm_provider :: string
  cfg_llm_default_model :: string

text \<open>
  Rows of the tables \<open>conversations\<close> and \<open>sources\<close>. \<open>created_at\<close> is the text of
  \<open>CURRENT_TIMESTAMP\<close>, of fixed width and compared as text; it is kept as the number of
  seconds it denotes, which orders the same way.
\<close>

record conversation_row =
  c_id :: nat
  c_created_at :: nat
  c_question :: string
  c_answer :: string
  c_num_contexts :: nat
  c_avg_similarity :: rat
  c_model_used :: string
  c_session_id :: string

record source_row =
  s_id :: nat
  s_conversation_id :: nat
  s_source_file :: pyval
  s_page :: pyval
  s_similarity :: rat

record database =
  conversations_tbl :: "conversation_row list"
  sources_tbl :: "source_row list"

record file_system =
  json_files :: "string \<rightharpoonup> config"
  db_files :: "string \<rightharpoonup> database"

record saver =
  save_dir :: string

datatype io_error = FileNotFoundError

text \<open>\<open>os.path.join(a, b)\<close> for two components on a POSIX system.\<close>

definition os_path_join :: "string \<Rightarrow> string \<Rightarrow> string" where
  "os_path_join a b =
     (if b \<noteq> [] \<and> hd b = CHR ''/'' then b
      else if a = [] \<or> last a = CHR ''/'' then a @ b
      else a @ ''/'' @ b)"

definition config_path :: "saver \<Rightarrow> string \<Rightarrow> string" where
  "config_path sv name = os_path_join (save_dir sv) (name @ ''_config.json'')"

definition db_path :: "saver \<Rightarrow> string \<Rightarrow> string" where
  "db_path sv name = os_path_join (save_dir sv) (name @ ''_conversations.db'')"

definition save_config_json ::
  "saver \<Rightarrow> file_system \<Rightarrow> string \<Rightarrow> rag_system \<Rightarrow> string \<Rightarrow> string \<times> file_system" where
  "save_config_json sv fs now rs name =
     (let cfg = \<lparr>cfg_name = name, cfg_created_at = now,
                 cfg_vs_path = persist_directory (vector_store rs),
                 cfg_vs_collection_name = collection_name (vector_store rs),
                 cfg_vs_total_documents = collection_count (vector_store rs),
                 cfg_emb_model_name = model_name (embedding_manager rs),
                 cfg_emb_embedding_dim = sentence_embedding_dimension (embedding_manager rs),
                 cfg_llm_provider = ''groq'',
                 cfg_llm_default_model = ''llama-3.3-70b-versatile''\<rparr>;
          filepath = config_path sv name
      in (filepath, fs\<lparr>json_files := (json_files fs)(filepath \<mapsto> cfg)\<rparr>))"

text \<open>\<open>open(filepath, 'r')\<close> raises FileNotFoundError when the file is absent.\<close>

definition load_config_json :: "saver \<Rightarrow> file_system \<Rightarrow> string \<Rightarrow> io_error + config" where
  "load_config_json sv fs name =
     (case json_files fs (config_path sv name) of
        None \<Rightarrow> Inl FileNotFoundError
      | Some cfg \<Rightarrow> Inr cfg)"

definition empty_db :: database where
  "empty_db = \<lparr>conversations_tbl = [], sources_tbl = []\<rparr>"

text \<open>
  \<open>_init_sqlite_db\<close>: connecting creates the file, and \<open>CREATE TABLE IF NOT EXISTS\<close>
  leaves existing tables as they are.
\<close>

definition init_sqlite_db :: "file_system \<Rightarrow> string \<Rightarrow> file_system" where
  "init_sqlite_db fs path =
     (case db_files fs path of
        None \<Rightarrow> fs\<lparr>db_files := (db_files fs)(path \<mapsto> empty_db)\<rparr>
      | Some db \<Rightarrow> fs)"

text \<open>
  \<open>INTEGER PRIMARY KEY AUTOINCREMENT\<close>: the new id is one more than the largest id the
  table has held. The program deletes no row, so that is the largest id in the table.
\<close>

definition next_id :: "nat list \<Rightarrow> nat" where
  "next_id ids = fold max ids 0 + 1"

text \<open>
  A column declared \<open>TEXT\<close> stores NULL as NULL and text as text, and converts a number
  bound to it into its text form.
\<close>

fun text_affinity :: "pyval \<Rightarrow> pyval" where
  "text_affinity PNone = PNone"
| "text_affinity (PInt i) = PStr (py_str (PInt i))"
| "text_affinity (PStr s) = PStr s"

text \<open>The row written by \<open>INSERT INTO sources\<close> for one source of a conversation.\<close>

definition source_insert :: "nat \<Rightarrow> nat \<Rightarrow> source_attr \<Rightarrow> source_row" where
  "source_insert new_id conv_id s =
     \<lparr>s_id = new_id, s_conversation_id = conv_id,
      s_source_file = text_affinity (src_file s), s_page = text_affinity (page s),
      s_similarity = similarity s\<rparr>"

definition insert_source :: "nat \<Rightarrow> database \<Rightarrow> source_attr \<Rightarrow> database" where
  "insert_source conv_id db s =
     db\<lparr>sources_tbl := sources_tbl db @
          [source_insert (next_id (map s_id (sources_tbl db))) conv_id s]\<rparr>"

fun insert_sources :: "nat \<Rightarrow> database \<Rightarrow> source_attr list \<Rightarrow> database" where
  "insert_sources conv_id db [] = db"
| "insert_sources conv_id db (s # rest) = insert_sources conv_id (insert_source conv_id db s) rest"

text \<open>
  \<open>similarity_scores = [s.get('similarity', 0) for s in conv.get('sources', [])]\<close> and
  \<open>sum(similarity_scores) / len(similarity_scores) if similarity_scores else 0\<close>. The
  entries of the history are those appended by \<open>query\<close>, which carry every key.
\<close>

definition entry_avg_similarity :: "conversation \<Rightarrow> rat" where
  "entry_avg_similarity conv =
     (let similarity_scores = map similarity (conv_sources conv)
      in if similarity_scores \<noteq> []
         then py_truediv (py_sum similarity_scores) (length similarity_scores) else 0)"

text \<open>The row written by \<open>INSERT INTO conversations\<close> for one entry of the history.\<close>

definition conversation_insert ::
  "nat \<Rightarrow> nat \<Rightarrow> string \<Rightarrow> conversation \<Rightarrow> conversation_row" where
  "conversation_insert new_id stamp sid conv =
     \<lparr>c_id = new_id, c_created_at = stamp,
      c_question = conv_question conv, c_answer = conv_answer conv,
      c_num_contexts = conv_num_contexts conv,
      c_avg_similarity = entry_avg_similarity conv,
      c_model_used = ''llama-3.3-70b-versatile'', c_session_id = sid\<rparr>"

text \<open>
  The loop over \<open>rag_system.conversation_history\<close>. \<open>clock i\<close> is the value of
  \<open>CURRENT_TIMESTAMP\<close> when the entry at position \<open>i\<close> is inserted; \<open>conv_id\<close> is
  \<open>cursor.lastrowid\<close>.
\<close>

fun save_loop ::
  "(nat \<Rightarrow> nat) \<Rightarrow> string \<Rightarrow> nat \<Rightarrow> database \<Rightarrow> conversation list \<Rightarrow> database" where
  "save_loop clock sid i db [] = db"
| "save_loop clock sid i db (conv # rest) =
     (let conv_id = next_id (map c_id (conversations_tbl db));
          db1 = db\<lparr>conversations_tbl := conversations_tbl db @
                   [conversation_insert conv_id (clock i) sid conv]\<rparr>
      in save_loop clock sid (Suc i) (insert_sources conv_id db1 (conv_sources conv)) rest)"

text \<open>\<open>session_id or datetime.now().isoformat()\<close>: \<open>None\<close> and the empty string are falsy.\<close>

definition session_or_now :: "string option \<Rightarrow> string \<Rightarrow> string" where
  "session_or_now session_id now =
     (case session_id of None \<Rightarrow> now | Some s \<Rightarrow> if s = [] then now else s)"

definition save_conversations_sqlite ::
  "saver \<Rightarrow> file_system \<Rightarrow> (nat \<Rightarrow> nat) \<Rightarrow> string \<Rightarrow> rag_system \<Rightarrow> string \<Rightarrow> string option \<Rightarrow>
   file_system" where
  "save_conversations_sqlite sv fs clock now rs name session_id =
     (let path = db_path sv name;
          fs1 = init_sqlite_db fs path
      in case db_files fs1 path of
           None \<Rightarrow> fs1
         | Some db \<Rightarrow>
             fs1\<lparr>db_files := (db_files fs1)(path \<mapsto>
                   save_loop clock (session_or_now session_id now) 0 db
                     (conversation_history rs))\<rparr>)"

text \<open>
  \<open>ORDER BY created_at DESC\<close>. SQL leaves the order of rows with equal keys open; the
  model takes the reverse of the stable ascending sort.
\<close>

definition order_by_created_at_desc :: "conversation_row list \<Rightarrow> conversation_row list" where
  "order_by_created_at_desc rows = rev (sort_key c_created_at rows)"

text \<open>\<open>LIMIT ?\<close>: a negative limit means no limit.\<close>

definition sql_limit :: "int \<Rightarrow> 'a list \<Rightarrow> 'a list" where
  "sql_limit n rows = (if n < 0 then rows else take (nat n) rows)"

text \<open>The dictionaries that \<open>load_conversations_sqlite\<close> builds.\<close>

record loaded_source =
  l_file :: pyval
  l_page :: pyval
  l_similarity :: rat

record loaded_conversation =
  l_id :: nat
  l_question :: string
  l_answer :: string
  l_num_contexts :: nat
  l_avg_similarity :: rat
  l_created_at :: nat
  l_sources :: "loaded_source list"

definition load_row :: "database \<Rightarrow> conversation_row \<Rightarrow> loaded_conversation" where
  "load_row db conv =
     \<lparr>l_id = c_id conv, l_question = c_question conv, l_answer = c_answer conv,
      l_num_contexts = c_num_contexts conv, l_avg_similarity = c_avg_similarity conv,
      l_created_at = c_created_at conv,
      l_sources =
        map (\<lambda>s. \<lparr>l_file = s_source_file s, l_page = s_page s, l_similarity = s_similarity s\<rparr>)
          (filter (\<lambda>s. s_conversation_id s = c_id conv) (sources_tbl db))\<rparr>"

definition load_conversations_sqlite ::
  "saver \<Rightarrow> file_system \<Rightarrow> string \<Rightarrow> int \<Rightarrow> loaded_conversation list" where
  "load_conversations_sqlite sv fs name limit =
     (case db_files fs (db_path sv name) of
        None \<Rightarrow> []
      | Some db \<Rightarrow>
          map (load_row db) (sql_limit limit (order_by_created_at_desc (conversations_tbl db))))"

text \<open>
  The database that a connection to the store's path sees: connecting to a missing file
  gives a database without rows.
\<close>

definition stored_db :: "saver \<Rightarrow> file_system \<Rightarrow> string \<Rightarrow> database" where
  "stored_db sv fs name =
     (case db_files fs (db_path sv name) of None \<Rightarrow> empty_db | Some db \<Rightarrow> db)"

text \<open>
  The foreign key of the table \<open>sources\<close>: every source row refers to a row of
  \<open>conversations\<close>.
\<close>

definition foreign_keys_ok :: "database \<Rightarrow> bool" where
  "foreign_keys_ok db =
     list_all (\<lambda>s. s_conversation_id s \<in> set (map c_id (conversations_tbl db))) (sources_tbl db)"

text \<open>The fields of a source that a round trip through the store compares.\<close>

definition loaded_source_fields :: "loaded_source \<Rightarrow> pyval \<times> pyval \<times> rat" where
  "loaded_source_fields s = (l_file s, l_page s, l_similarity s)"

definition source_fields :: "source_attr \<Rightarrow> pyval \<times> pyval \<times> rat" where
  "source_fields s = (src_file s, page s, similarity s)"

text \<open>
  The statistics dictionary; \<open>None\<close> is the empty dictionary returned for a missing
  database. \<open>rnd\<close> stands for Python's \<open>round(x, ndigits)\<close> on floats, and \<open>avg\<close> for
  the aggregate \<open>AVG\<close> of SQLite over the values of a column with at least one row.
\<close>

record stats =
  total_conversations :: nat
  avg_similarity_score :: rat
  avg_contexts_per_query :: rat
  top_sources :: "(pyval \<times> nat) list"

text \<open>\<open>AVG\<close> over a column is NULL on no rows, and \<open>NULL or 0\<close> is \<open>0\<close>.\<close>

definition sql_avg_or_0 :: "(rat list \<Rightarrow> rat) \<Rightarrow> rat list \<Rightarrow> rat" where
  "sql_avg_or_0 avg xs = (if xs = [] then 0 else avg xs)"

text \<open>
  \<open>GROUP BY source_file ORDER BY count DESC LIMIT 5\<close>; among equal counts the model
  keeps the order of first occurrence.
\<close>

definition top_source_counts :: "source_row list \<Rightarrow> (pyval \<times> nat) list" where
  "top_source_counts rows =
     (let files = map s_source_file rows;
          groups = map (\<lambda>f. (f, count_list files f)) (remdups files)
      in take 5 (sort_key (\<lambda>g. - int (snd g)) groups))"

definition get_sqlite_stats ::
  "(rat list \<Rightarrow> rat) \<Rightarrow> (rat \<Rightarrow> nat \<Rightarrow> rat) \<Rightarrow> saver \<Rightarrow> file_system \<Rightarrow> string \<Rightarrow>
   stats option" where
  "get_sqlite_stats avg rnd sv fs name =
     (case db_files fs (db_path sv name) of
        None \<Rightarrow> None
      | Some db \<Rightarrow>
          Some \<lparr>total_conversations = length (conversations_tbl db),
                avg_similarity_score =
                  rnd (sql_avg_or_0 avg (map c_avg_similarity (conversations_tbl db))) 3,
                avg_contexts_per_query =
                  rnd (sql_avg_or_0 avg
                         (map (\<lambda>c. of_nat (c_num_contexts c)) (conversations_tbl db))) 2,
                top_sources = top_source_counts (sources_tbl db)\<rparr>)"

text \<open>
  SQLite's \<open>LIKE\<close> without \<open>ESCAPE\<close>: \<open>%\<close> matches any run of characters, \<open>_\<close> one
  character, and every other character matches itself up to the case of ASCII letters.
\<close>

definition ascii_lower :: "char \<Rightarrow> char" where
  "ascii_lower c =
     (if (65::nat) \<le> of_char c \<and> of_char c \<le> (90::nat) then char_of (of_char c + (32::nat)) else c)"

fun sql_like :: "string \<Rightarrow> string \<Rightarrow> bool" where
  "sql_like [] [] = True"
| "sql_like [] (c # cs) = False"
| "sql_like (p # ps) [] = (p = CHR ''%'' \<and> sql_like ps [])"
| "sql_like (p # ps) (c # cs) =
     (if p = CHR ''%'' then sql_like ps (c # cs) \<or> sql_like (p # ps) cs
      else (p = CHR ''_'' \<or> ascii_lower p = ascii_lower c) \<and> sql_like ps cs)"

text \<open>
  The query of \<open>search_conversations\<close>. In SQL \<open>AND\<close> binds tighter than \<open>OR\<close>, so
  \<open>question LIKE ? OR answer LIKE ? AND avg_similarity >= ?\<close> is
  \<open>question LIKE ? OR (answer LIKE ? AND avg_similarity >= ?)\<close>.
\<close>

definition search_where :: "string \<Rightarrow> rat \<Rightarrow> conversation_row \<Rightarrow> bool" where
  "search_where pat min_similarity c =
     (sql_like pat (c_question c) \<or>
      (sql_like pat (c_answer c) \<and> min_similarity \<le> c_avg_similarity c))"

definition search_conversations ::
  "saver \<Rightarrow> file_system \<Rightarrow> string \<Rightarrow> string \<Rightarrow> rat \<Rightarrow> conversation_row list" where
  "search_conversations sv fs name query_text min_similarity =
     (case db_files fs (db_path sv name) of
        None \<Rightarrow> []
      | Some db \<Rightarrow>
          order_by_created_at_desc
            (filter (search_where (''%'' @ query_text @ ''%'') min_similarity)
               (conversations_tbl db)))"

section \<open>Occurrence of texts in order\<close>

text \<open>
  \<open>after_first m s\<close> is the text of \<open>s\<close> after the first occurrence of \<open>m\<close>, and
  \<open>occur_in_order ms s\<close> says that the texts \<open>ms\<close> occur in \<open>s\<close> one after the other,
  without overlap, in the order of the list.
\<close>

fun after_first :: "string \<Rightarrow> string \<Rightarrow> string option" where
  "after_first m [] = (if m = [] then Some [] else None)"
| "after_first m (c # cs) =
     (if prefix m (c # cs) then Some (drop (length m) (c # cs)) else after_first m cs)"

fun occur_in_order :: "string list \<Rightarrow> string \<Rightarrow> bool" where
  "occur_in_order [] s = True"
| "occur_in_order (m # ms) s =
     (case after_first m s of None \<Rightarrow> False | Some r \<Rightarrow> occur_in_order ms r)"

section \<open>Sample inputs\<close>

text \<open>Concrete inputs at which the results below are evaluated.\<close>

definition sample_contexts :: "context_chunk list" where
  "sample_contexts =
     [\<lparr>content = ''alpha'', metadata = [(''source_file'', PStr ''a.pdf''), (''page'', PInt 3)],
       similarity_score = Some (3 / 4)\<rparr>,
      \<lparr>content = ''beta'', metadata = [], similarity_score = Some (1 / 2)\<rparr>]"


definition answering_client :: groq_client where
  "answering_client =
     \<lparr>api_key = ''key'', create = (\<lambda>log req. Choices [''It is so [1].'']), calls = []\<rparr>"

definition failing_client :: groq_client where
  "failing_client =
     \<lparr>api_key = ''key'', create = (\<lambda>log req. Raised ''rate limit''), calls = []\<rparr>"

definition sample_pct :: "rat \<Rightarrow> string" where
  "sample_pct x = ''pct''"

definition no_kwargs :: llm_kwargs where
  "no_kwargs = \<lparr>kw_model = None, kw_temperature = None, kw_max_tokens = None\<rparr>"

definition other_model_kwargs :: llm_kwargs where
  "other_model_kwargs =
     \<lparr>kw_model = Some ''mixtral-8x7b'', kw_temperature = None, kw_max_tokens = None\<rparr>"

text \<open>A system whose retriever finds the sample contexts, and one whose retriever finds none.\<close>

definition sample_rag :: rag_system where
  "sample_rag =
     \<lparr>vector_store = \<lparr>persist_directory = ''chroma'', collection_name = ''pdfs'',
                       collection_count = 2\<rparr>,
      embedding_manager = \<lparr>model_name = ''all-MiniLM-L6-v2'', sentence_embedding_dimension = 384\<rparr>,
      llm_client = answering_client,
      retriever = (\<lambda>q top_k threshold. Inr sample_contexts),
      conversation_history = []\<rparr>"

definition empty_rag :: rag_system where
  "empty_rag = sample_rag\<lparr>retriever := (\<lambda>q top_k threshold. Inr [])\<rparr>"

definition sample_saver :: saver where
  "sample_saver = \<lparr>save_dir = ''rag_saves''\<rparr>"

definition empty_fs :: file_system where
  "empty_fs = \<lparr>json_files = Map.empty, db_files = Map.empty\<rparr>"

definition sample_clock :: "nat \<Rightarrow> nat" where
  "sample_clock i = 10 + i"

section \<open>Auxiliary facts\<close>

text \<open>
  The float model at the values of the literals \<open>0.1\<close>, \<open>0.2\<close> and \<open>0.3\<close>, as
  \<open>float.as_integer_ratio\<close> gives them, and at \<open>0.1 + 0.2\<close> and \<open>sum([0.1, 0.2, 0.3]) / 3\<close>.
\<close>

lemma nearest_double_literals:
  "nearest_double (1 / 10) = 3602879701896397 / 36028797018963968"
  "nearest_double (2 / 10) = 3602879701896397 / 18014398509481984"
  "nearest_double (3 / 10) = 5404319552844595 / 18014398509481984"
  by code_simp+

lemma float_add_tenths:
  "float_add (nearest_double (1 / 10)) (nearest_double (2 / 10)) =
     1351079888211149 / 4503599627370496"
  by code_simp

lemma py_mean_of_three_tenths:
  "py_truediv (py_sum [nearest_double (1 / 10), nearest_double (2 / 10), nearest_double (3 / 10)]) 3 =
     7205759403792795 / 36028797018963968"
  by code_simp

lemma after_first_prefix: "prefix m s \<Longrightarrow> after_first m s = Some (drop (length m) s)"
  by (cases s) auto

lemma suffix_drop_short:
  assumes "suffix b w" and "k + length b \<le> length w"
  shows "suffix b (drop k w)"
proof -
  from assms(1) obtain z where w: "w = z @ b" by (auto simp: suffix_def)
  with assms(2) have "k \<le> length z" by simp
  with w have "drop k w = drop k z @ b" by simp
  then show ?thesis by (simp add: suffix_def)
qed

lemma after_first_append:
  "\<exists>r. after_first m (a @ m @ b) = Some r \<and> suffix b r"
proof (induction a)
  case Nil
  show ?case by (simp add: after_first_prefix)
next
  case (Cons c a)
  show ?case
  proof (cases "prefix m (c # a @ m @ b)")
    case True
    have "suffix b (drop (length m) (c # a @ m @ b))"
      by (rule suffix_drop_short) (simp_all add: suffix_def)
    with True show ?thesis by simp
  next
    case False
    with Cons show ?thesis by simp
  qed
qed

lemma after_first_decomp:
  "after_first m s = Some r \<Longrightarrow> \<exists>x. s = x @ m @ r"
proof (induction s)
  case Nil
  then show ?case by (simp split: if_splits)
next
  case (Cons c cs)
  show ?case
  proof (cases "prefix m (c # cs)")
    case True
    with Cons.prems have r: "r = drop (length m) (c # cs)" by simp
    from True have "c # cs = m @ drop (length m) (c # cs)"
      by (metis append_eq_conv_conj prefix_def)
    with r have "c # cs = [] @ m @ r" by simp
    then show ?thesis by blast
  next
    case False
    with Cons obtain x where "cs = x @ m @ r" by auto
    then have "c # cs = (c # x) @ m @ r" by simp
    then show ?thesis by blast
  qed
qed

lemma occur_in_order_suffix:
  "occur_in_order ms s \<Longrightarrow> suffix s t \<Longrightarrow> occur_in_order ms t"
proof (induction ms arbitrary: s t)
  case Nil
  show ?case by simp
next
  case (Cons m ms)
  then obtain r where r: "after_first m s = Some r" "occur_in_order ms r"
    by (auto split: option.splits)
  from Cons.prems(2) obtain a where t: "t = a @ s" by (auto simp: suffix_def)
  from after_first_decomp[OF r(1)] obtain x where "s = x @ m @ r" by blast
  with t have "t = (a @ x) @ m @ r" by simp
  with after_first_append[of m "a @ x" r]
  obtain r' where r': "after_first m t = Some r'" "suffix r r'" by auto
  from Cons.IH[OF r(2) r'(2)] r'(1) show ?case by simp
qed

lemma occur_in_order_Cons:
  assumes "occur_in_order ms b"
  shows "occur_in_order (m # ms) (a @ m @ b)"
proof -
  from after_first_append[of m a b]
  obtain r where r: "after_first m (a @ m @ b) = Some r" "suffix b r" by blast
  from occur_in_order_suffix[OF assms r(2)] r(1) show ?thesis by simp
qed

lemma occur_in_order_join:
  "occur_in_order xs (str_join sep xs @ t)"
proof (induction sep xs rule: str_join.induct)
  case (1 sep)
  show ?case by simp
next
  case (2 sep x)
  have "occur_in_order [x] ([] @ x @ t)" by (rule occur_in_order_Cons) simp
  then show ?case by simp
next
  case (3 sep x y ys)
  have "occur_in_order (x # y # ys) ([] @ x @ (sep @ str_join sep (y # ys) @ t))"
  proof (rule occur_in_order_Cons)
    show "occur_in_order (y # ys) (sep @ str_join sep (y # ys) @ t)"
      using 3 by (rule occur_in_order_suffix) (simp add: suffix_def)
  qed
  then show ?case by simp
qed

lemma format_contexts_eq:
  "format_contexts pct i ctxs = map (\<lambda>k. format_context pct (i + k) (ctxs ! k)) [0..<length ctxs]"
proof (induction ctxs arbitrary: i)
  case Nil
  show ?case by simp
next
  case (Cons c ctxs)
  have "map (\<lambda>k. format_context pct (i + k) ((c # ctxs) ! k)) [0..<length (c # ctxs)] =
        format_context pct i c # map (\<lambda>k. format_context pct (Suc i + k) (ctxs ! k)) [0..<length ctxs]"
    by (simp add: upt_conv_Cons map_Suc_upt[symmetric] del: upt_Suc)
  with Cons[of "Suc i"] show ?case by simp
qed

lemma length_extract_sources: "length (extract_sources i ctxs) = length ctxs"
  by (induction ctxs arbitrary: i) simp_all

lemma extract_sources_nth:
  "k < length ctxs \<Longrightarrow> extract_sources i ctxs ! k =
     \<lparr>source_id = i + k + 1, src_file = ctx_source (ctxs ! k), page = ctx_page (ctxs ! k),
      similarity = ctx_similarity (ctxs ! k)\<rparr>"
proof (induction ctxs arbitrary: i k)
  case Nil
  then show ?case by simp
next
  case (Cons c ctxs)
  then show ?case by (cases k) simp_all
qed

section \<open>Auxiliary facts about the save loop\<close>

lemma fold_max_Max: "fold max xs (a::nat) = Max (set (a # xs))"
  by (simp only: Max.set_eq_fold)

lemma next_id_greater: "x \<in> set ids \<Longrightarrow> x < next_id ids"
proof -
  assume "x \<in> set ids"
  then have "x \<le> Max (set (0 # ids))" by (intro Max_ge) simp_all
  then show ?thesis by (simp add: next_id_def fold_max_Max)
qed

lemma next_id_snoc: "next_id (ids @ [next_id ids]) = next_id ids + 1"
  by (simp add: next_id_def)

lemma c_id_conversation_insert: "c_id (conversation_insert n t sid c) = n"
  by (simp add: conversation_insert_def)

lemma insert_sources_conversations:
  "conversations_tbl (insert_sources conv_id db srcs) = conversations_tbl db"
  by (induction srcs arbitrary: db) (simp_all add: insert_source_def)

lemma insert_sources_rows:
  "map (\<lambda>s. (s_conversation_id s, s_source_file s, s_page s, s_similarity s))
     (sources_tbl (insert_sources conv_id db srcs)) =
   map (\<lambda>s. (s_conversation_id s, s_source_file s, s_page s, s_similarity s)) (sources_tbl db) @
   map (\<lambda>s. (conv_id, text_affinity (src_file s), text_affinity (page s), similarity s)) srcs"
  by (induction srcs arbitrary: db) (simp_all add: insert_source_def source_insert_def)

lemma save_loop_conversations:
  "conversations_tbl (save_loop clock sid i db h) =
   conversations_tbl db @
   map (\<lambda>k. conversation_insert (next_id (map c_id (conversations_tbl db)) + k) (clock (i + k))
              sid (h ! k)) [0..<length h]"
proof (induction h arbitrary: i db)
  case Nil
  show ?case by simp
next
  case (Cons c h)
  let ?n = "next_id (map c_id (conversations_tbl db))"
  let ?db1 = "db\<lparr>conversations_tbl := conversations_tbl db @ [conversation_insert ?n (clock i) sid c]\<rparr>"
  let ?db2 = "insert_sources ?n ?db1 (conv_sources c)"
  have tbl2: "conversations_tbl ?db2 = conversations_tbl db @ [conversation_insert ?n (clock i) sid c]"
    by (simp add: insert_sources_conversations)
  have "conversations_tbl (save_loop clock sid i db (c # h)) =
        conversations_tbl (save_loop clock sid (Suc i) ?db2 h)"
    by (simp add: Let_def)
  also have "\<dots> = conversations_tbl ?db2 @
      map (\<lambda>k. conversation_insert (next_id (map c_id (conversations_tbl ?db2)) + k)
                 (clock (Suc i + k)) sid (h ! k)) [0..<length h]"
    by (rule Cons.IH)
  also have "\<dots> = conversations_tbl db @
      map (\<lambda>k. conversation_insert (?n + k) (clock (i + k)) sid ((c # h) ! k)) [0..<length (c # h)]"
    by (simp add: tbl2 c_id_conversation_insert next_id_snoc map_upt_Suc del: upt_Suc)
  finally show ?case .
qed

lemma save_loop_rows:
  "map (\<lambda>s. (s_conversation_id s, s_source_file s, s_page s, s_similarity s))
     (sources_tbl (save_loop clock sid i db h)) =
   map (\<lambda>s. (s_conversation_id s, s_source_file s, s_page s, s_similarity s)) (sources_tbl db) @
   concat (map (\<lambda>k. map (\<lambda>s. (next_id (map c_id (conversations_tbl db)) + k,
                               text_affinity (src_file s), text_affinity (page s), similarity s))
                       (conv_sources (h ! k))) [0..<length h])"
proof (induction h arbitrary: i db)
  case Nil
  show ?case by simp
next
  case (Cons c h)
  let ?n = "next_id (map c_id (conversations_tbl db))"
  let ?db1 = "db\<lparr>conversations_tbl := conversations_tbl db @ [conversation_insert ?n (clock i) sid c]\<rparr>"
  let ?db2 = "insert_sources ?n ?db1 (conv_sources c)"
  let ?pr = "\<lambda>s. (s_conversation_id s, s_source_file s, s_page s, s_similarity s)"
  have tbl2: "conversations_tbl ?db2 = conversations_tbl db @ [conversation_insert ?n (clock i) sid c]"
    by (simp add: insert_sources_conversations)
  have src2: "map ?pr (sources_tbl ?db2) = map ?pr (sources_tbl db) @
      map (\<lambda>s. (?n, text_affinity (src_file s), text_affinity (page s), similarity s)) (conv_sources c)"
    by (simp add: insert_sources_rows)
  have "map ?pr (sources_tbl (save_loop clock sid i db (c # h))) =
        map ?pr (sources_tbl (save_loop clock sid (Suc i) ?db2 h))"
    by (simp add: Let_def)
  also have "\<dots> = map ?pr (sources_tbl ?db2) @
      concat (map (\<lambda>k. map (\<lambda>s. (next_id (map c_id (conversations_tbl ?db2)) + k,
                               text_affinity (src_file s), text_affinity (page s), similarity s))
                       (conv_sources (h ! k))) [0..<length h])"
    by (rule Cons.IH)
  also have "\<dots> = map ?pr (sources_tbl db) @
      concat (map (\<lambda>k. map (\<lambda>s. (?n + k,
                               text_affinity (src_file s), text_affinity (page s), similarity s))
                       (conv_sources ((c # h) ! k))) [0..<length (c # h)])"
    by (simp add: tbl2 src2 c_id_conversation_insert next_id_snoc map_upt_Suc del: upt_Suc)
  finally show ?case .
qed

lemma save_conversations_sqlite_stored:
  "stored_db sv (save_conversations_sqlite sv fs clock now rs name session_id) name =
     save_loop clock (session_or_now session_id now) 0 (stored_db sv fs name)
       (conversation_history rs)"
  by (simp add: save_conversations_sqlite_def stored_db_def init_sqlite_db_def Let_def
      split: option.splits)

lemma save_conversations_sqlite_exists:
  "db_files (save_conversations_sqlite sv fs clock now rs name session_id) (db_path sv name) =
     Some (stored_db sv (save_conversations_sqlite sv fs clock now rs name session_id) name)"
  by (simp add: save_conversations_sqlite_def stored_db_def init_sqlite_db_def Let_def
      split: option.splits)

section \<open>Results about the synthesizer\<close>

lemma build_prompt_in_order:
  "occur_in_order (map (\<lambda>k. format_context pct (Suc k) (contexts ! k)) [0..<length contexts])
     (build_prompt pct q contexts)"
proof -
  have "occur_in_order (format_contexts pct 1 contexts)
          (str_join ''\<newline>\<newline>'' (format_contexts pct 1 contexts) @
           ''\<newline>\<newline>QUESTION: '' @ q @ ''\<newline>\<newline>ANSWER (with citations):'')"
    by (rule occur_in_order_join)
  then have "occur_in_order (format_contexts pct 1 contexts) (build_prompt pct q contexts)"
    unfolding build_prompt_def by (rule occur_in_order_suffix) (simp add: suffix_def)
  then show ?thesis by (simp add: format_contexts_eq)
qed

lemma generate_response_calls:
  "contexts \<noteq> [] \<Longrightarrow>
   calls (snd (generate_response pct cl q contexts mdl temperature max_tokens)) =
     calls cl @ [\<lparr>req_model = mdl, req_content = build_prompt pct q contexts,
                  req_temperature = temperature, req_max_tokens = max_tokens\<rparr>]"
  by (simp add: generate_response_def chat_completions_create_def Let_def split: sum.splits)

lemma generate_response_sources:
  "sources (fst (generate_response pct cl q contexts mdl temperature max_tokens)) = [] \<or>
   sources (fst (generate_response pct cl q contexts mdl temperature max_tokens)) =
     extract_sources 0 contexts"
  by (simp add: generate_response_def chat_completions_create_def Let_def split: sum.splits)

lemma generate_response_success:
  "contexts \<noteq> [] \<Longrightarrow>
   completion_content (create cl (calls cl)
      \<lparr>req_model = mdl, req_content = build_prompt pct q contexts,
       req_temperature = temperature, req_max_tokens = max_tokens\<rparr>) = Inr ans \<Longrightarrow>
   fst (generate_response pct cl q contexts mdl temperature max_tokens) =
     \<lparr>answer = ans, sources = extract_sources 0 contexts, model = Some mdl,
      num_contexts_used = length contexts,
      avg_similarity = Some (sources_avg_similarity (extract_sources 0 contexts)),
      question = None, retrieved_contexts = None\<rparr>"
  by (simp add: generate_response_def chat_completions_create_def Let_def)

text \<open>
  C4. With an empty context list \<open>generate_response\<close> returns the fixed answer, no sources,
  zero contexts used and average similarity 0, and the client comes back unchanged: its
  call log is the one it had, so the completion service was not invoked.
\<close>

theorem generate_response_no_contexts:
  "generate_response pct cl q [] mdl temperature max_tokens =
     (\<lparr>answer = ''I couldn't find any relevant information in the documents to answer your question.'',
       sources = [], model = Some mdl, num_contexts_used = 0, avg_similarity = Some 0,
       question = None, retrieved_contexts = None\<rparr>, cl)"
  by (simp add: generate_response_def no_context_answer_def)

text \<open>
  C3. For a non-empty list of \<open>n\<close> contexts, \<open>generate_response\<close> sends exactly one
  request, whose prompt contains, one after the other and in the order of the input, the
  blocks that open with the citation markers \<open>[1]\<close> to \<open>[n]\<close>, the block of marker
  \<open>[k + 1]\<close> carrying the source, page, relevance and content of the context at index \<open>k\<close>.
  Every returned source at index \<open>i\<close> has id \<open>i + 1\<close>; when the completion succeeds the
  sources are those of the contexts, in the same order.
\<close>

theorem citation_markers_in_order:
  assumes "contexts \<noteq> []"
  shows "calls (snd (generate_response pct cl q contexts mdl temperature max_tokens)) =
           calls cl @ [\<lparr>req_model = mdl, req_content = build_prompt pct q contexts,
                        req_temperature = temperature, req_max_tokens = max_tokens\<rparr>]
       \<and> occur_in_order
           (map (\<lambda>k. ''['' @ str_nat (k + 1) @ '']'' @
                     '' (Source: '' @ py_str (ctx_source (contexts ! k)) @
                     '', Page: '' @ py_str (ctx_page (contexts ! k)) @
                     '', Relevance: '' @ pct (ctx_similarity (contexts ! k)) @ '')\<newline>'' @
                     content (contexts ! k))
              [0..<length contexts])
           (build_prompt pct q contexts)
       \<and> (\<forall>i < length (sources (fst (generate_response pct cl q contexts mdl temperature max_tokens))).
            source_id (sources (fst (generate_response pct cl q contexts mdl temperature max_tokens)) ! i) = i + 1)
       \<and> (\<forall>ans. completion_content (create cl (calls cl)
              \<lparr>req_model = mdl, req_content = build_prompt pct q contexts,
               req_temperature = temperature, req_max_tokens = max_tokens\<rparr>) = Inr ans \<longrightarrow>
            sources (fst (generate_response pct cl q contexts mdl temperature max_tokens)) =
              map (\<lambda>i. \<lparr>source_id = i + 1, src_file = ctx_source (contexts ! i),
                         page = ctx_page (contexts ! i),
                         similarity = ctx_similarity (contexts ! i)\<rparr>) [0..<length contexts])"
proof (intro conjI allI impI)
  show "calls (snd (generate_response pct cl q contexts mdl temperature max_tokens)) =
           calls cl @ [\<lparr>req_model = mdl, req_content = build_prompt pct q contexts,
                        req_temperature = temperature, req_max_tokens = max_tokens\<rparr>]"
    using assms by (rule generate_response_calls)
next
  show "occur_in_order
           (map (\<lambda>k. ''['' @ str_nat (k + 1) @ '']'' @
                     '' (Source: '' @ py_str (ctx_source (contexts ! k)) @
                     '', Page: '' @ py_str (ctx_page (contexts ! k)) @
                     '', Relevance: '' @ pct (ctx_similarity (contexts ! k)) @ '')\<newline>'' @
                     content (contexts ! k))
              [0..<length contexts])
           (build_prompt pct q contexts)"
    using build_prompt_in_order[of pct contexts q] by (simp add: format_context_def)
next
  fix i
  assume i: "i < length (sources (fst (generate_response pct cl q contexts mdl temperature max_tokens)))"
  from generate_response_sources[of pct cl q contexts mdl temperature max_tokens] i
  have eq: "sources (fst (generate_response pct cl q contexts mdl temperature max_tokens)) =
            extract_sources 0 contexts" by auto
  with i have "i < length contexts" by (simp add: length_extract_sources)
  with eq show "source_id (sources (fst (generate_response pct cl q contexts mdl temperature max_tokens)) ! i) = i + 1"
    by (simp add: extract_sources_nth)
next
  fix ans
  assume ok: "completion_content (create cl (calls cl)
              \<lparr>req_model = mdl, req_content = build_prompt pct q contexts,
               req_temperature = temperature, req_max_tokens = max_tokens\<rparr>) = Inr ans"
  have "extract_sources 0 contexts =
        map (\<lambda>i. \<lparr>source_id = i + 1, src_file = ctx_source (contexts ! i),
                         page = ctx_page (contexts ! i),
                         similarity = ctx_similarity (contexts ! i)\<rparr>) [0..<length contexts]"
    by (rule nth_equalityI) (simp_all add: length_extract_sources extract_sources_nth)
  with generate_response_success[OF assms ok]
  show "sources (fst (generate_response pct cl q contexts mdl temperature max_tokens)) =
              map (\<lambda>i. \<lparr>source_id = i + 1, src_file = ctx_source (contexts ! i),
                         page = ctx_page (contexts ! i),
                         similarity = ctx_similarity (contexts ! i)\<rparr>) [0..<length contexts]"
    by simp
qed

theorem citation_markers_in_order_witness:
  "sample_contexts \<noteq> []
   \<and> occur_in_order
        [''[1] (Source: a.pdf, Page: 3, Relevance: pct)\<newline>alpha'',
         ''[2] (Source: Unknown, Page: N/A, Relevance: pct)\<newline>beta'']
        (build_prompt (\<lambda>x. ''pct'') ''why?'' sample_contexts)
   \<and> sources (fst (generate_response (\<lambda>x. ''pct'') answering_client ''why?'' sample_contexts
          ''llama-3.3-70b-versatile'' (nearest_double (3 / 10)) 1000)) =
       [\<lparr>source_id = 1, src_file = PStr ''a.pdf'', page = PInt 3, similarity = 3 / 4\<rparr>,
        \<lparr>source_id = 2, src_file = PStr ''Unknown'', page = PStr ''N/A'', similarity = 1 / 2\<rparr>]"
proof -
  have ne: "sample_contexts \<noteq> []" by (simp add: sample_contexts_def)
  have blocks:
    "map (\<lambda>k. ''['' @ str_nat (k + 1) @ '']'' @
                     '' (Source: '' @ py_str (ctx_source (sample_contexts ! k)) @
                     '', Page: '' @ py_str (ctx_page (sample_contexts ! k)) @
                     '', Relevance: '' @ (\<lambda>x. ''pct'') (ctx_similarity (sample_contexts ! k)) @
                     '')\<newline>'' @ content (sample_contexts ! k))
       [0..<length sample_contexts] =
     [''[1] (Source: a.pdf, Page: 3, Relevance: pct)\<newline>alpha'',
      ''[2] (Source: Unknown, Page: N/A, Relevance: pct)\<newline>beta'']"
    by code_simp
  have srcs:
    "map (\<lambda>i. \<lparr>source_id = i + 1, src_file = ctx_source (sample_contexts ! i),
               page = ctx_page (sample_contexts ! i),
               similarity = ctx_similarity (sample_contexts ! i)\<rparr>)
       [0..<length sample_contexts] =
     [\<lparr>source_id = 1, src_file = PStr ''a.pdf'', page = PInt 3, similarity = 3 / 4\<rparr>,
      \<lparr>source_id = 2, src_file = PStr ''Unknown'', page = PStr ''N/A'', similarity = 1 / 2\<rparr>]"
    by code_simp
  have ok: "completion_content (create answering_client lg rq) = Inr ''It is so [1].''" for lg rq
    by (simp add: answering_client_def)
  from citation_markers_in_order[OF ne, of "\<lambda>x. ''pct''" answering_client
      "''why?''" "''llama-3.3-70b-versatile''" "nearest_double (3 / 10)" 1000]
  show ?thesis
    unfolding blocks srcs using ne ok by blast
qed

text \<open>
  C5. With non-empty contexts, when the call to the completion service raises, or its
  reply has no choice to read (both reach the \<open>except\<close> branch with the text \<open>e\<close> of the
  exception), \<open>generate_response\<close> returns a response whose answer is the non-empty text
  \<open>Error generating response: e\<close>, with no sources, zero contexts used and average
  similarity 0.
\<close>

theorem generate_response_completion_failure:
  assumes "contexts \<noteq> []"
    and "completion_content (create cl (calls cl)
           \<lparr>req_model = mdl, req_content = build_prompt pct q contexts,
            req_temperature = temperature, req_max_tokens = max_tokens\<rparr>) = Inl e"
  shows "fst (generate_response pct cl q contexts mdl temperature max_tokens) =
           \<lparr>answer = ''Error generating response: '' @ e, sources = [], model = Some mdl,
            num_contexts_used = 0, avg_similarity = Some 0, question = None,
            retrieved_contexts = None\<rparr>
         \<and> answer (fst (generate_response pct cl q contexts mdl temperature max_tokens)) \<noteq> []"
  using assms by (simp add: generate_response_def chat_completions_create_def Let_def)

theorem generate_response_completion_failure_witness:
  "sample_contexts \<noteq> []
   \<and> completion_content (create failing_client (calls failing_client)
        \<lparr>req_model = ''llama-3.3-70b-versatile'',
         req_content = build_prompt (\<lambda>x. ''pct'') ''why?'' sample_contexts,
         req_temperature = nearest_double (3 / 10), req_max_tokens = 1000\<rparr>) = Inl ''rate limit''
   \<and> fst (generate_response (\<lambda>x. ''pct'') failing_client ''why?'' sample_contexts
        ''llama-3.3-70b-versatile'' (nearest_double (3 / 10)) 1000) =
      \<lparr>answer = ''Error generating response: rate limit'', sources = [],
       model = Some ''llama-3.3-70b-versatile'', num_contexts_used = 0,
       avg_similarity = Some 0, question = None, retrieved_contexts = None\<rparr>"
proof -
  have ne: "sample_contexts \<noteq> []" by (simp add: sample_contexts_def)
  have fails: "completion_content (create failing_client (calls failing_client)
        \<lparr>req_model = ''llama-3.3-70b-versatile'',
         req_content = build_prompt (\<lambda>x. ''pct'') ''why?'' sample_contexts,
         req_temperature = nearest_double (3 / 10), req_max_tokens = 1000\<rparr>) = Inl ''rate limit''"
    by (simp add: failing_client_def)
  from generate_response_completion_failure[OF ne fails] ne fails
  show ?thesis by simp
qed

section \<open>Results about the orchestrator\<close>

lemma query_empty_branch:
  "retriever rs q top_k threshold = Inr [] \<Longrightarrow>
   query pct rs q top_k threshold kw =
     (Inr \<lparr>answer = ''I could not find relevant information to answer this question.'',
           sources = [], model = None, num_contexts_used = 0, avg_similarity = None,
           question = Some q, retrieved_contexts = None\<rparr>,
      rs\<lparr>conversation_history := conversation_history rs @
           [\<lparr>conv_question = q,
             conv_answer = ''I could not find relevant information to answer this question.'',
             conv_sources = [], conv_num_contexts = 0\<rparr>]\<rparr>)"
  by (simp add: query_def history_entry_def)

lemma query_synthesized_branch:
  "retriever rs q top_k threshold = Inr contexts \<Longrightarrow> contexts \<noteq> [] \<Longrightarrow>
   query pct rs q top_k threshold kw =
     (Inr ((fst (call_generate_response pct (llm_client rs) q contexts kw))
             \<lparr>question := Some q, retrieved_contexts := Some contexts\<rparr>),
      rs\<lparr>llm_client := snd (call_generate_response pct (llm_client rs) q contexts kw),
         conversation_history := conversation_history rs @
           [history_entry q (fst (call_generate_response pct (llm_client rs) q contexts kw))]\<rparr>)"
  by (simp add: query_def history_entry_def split_beta Let_def)

text \<open>An exception of the retriever leaves \<open>query\<close> before any branch: nothing is logged.\<close>

lemma query_retrieval_raises:
  "retriever rs q top_k threshold = Inl e \<Longrightarrow> query pct rs q top_k threshold kw = (Inl e, rs)"
  by (simp add: query_def)

lemma generate_response_client:
  "api_key (snd (generate_response pct cl q contexts mdl temperature max_tokens)) = api_key cl \<and>
   create (snd (generate_response pct cl q contexts mdl temperature max_tokens)) = create cl"
  by (simp add: generate_response_def chat_completions_create_def Let_def split: sum.splits)

text \<open>
  C2, evaluated where it fails. With a retriever that finds no context, the response of
  \<open>query\<close> has the fixed answer, no sources, zero contexts used and the question, but no
  \<open>avg_similarity\<close> field (and no \<open>model\<close> field), although every path of
  \<open>generate_response\<close>, the one for no contexts included, sets both: the field is absent,
  not 0.
\<close>

theorem query_no_contexts_omits_avg_similarity:
  "retriever empty_rag ''why?'' 5 (1 / 2) = Inr []
   \<and> fst (query sample_pct empty_rag ''why?'' 5 (1 / 2) no_kwargs) =
       Inr \<lparr>answer = ''I could not find relevant information to answer this question.'',
            sources = [], model = None, num_contexts_used = 0, avg_similarity = None,
            question = Some ''why?'', retrieved_contexts = None\<rparr>
   \<and> avg_similarity (projr (fst (query sample_pct empty_rag ''why?'' 5 (1 / 2) no_kwargs))) \<noteq> Some 0
   \<and> avg_similarity (fst (generate_response sample_pct (llm_client empty_rag) ''why?'' []
          ''llama-3.3-70b-versatile'' (nearest_double (3 / 10)) 1000)) = Some 0"
proof -
  have r: "retriever empty_rag ''why?'' 5 (1 / 2) = Inr []"
    by (simp add: empty_rag_def)
  have sib: "avg_similarity (fst (generate_response sample_pct (llm_client empty_rag) ''why?'' []
          ''llama-3.3-70b-versatile'' (nearest_double (3 / 10)) 1000)) = Some 0"
    by (simp add: generate_response_def)
  from r sib show ?thesis by (simp add: query_empty_branch)
qed

text \<open>
  C8. Every call of \<open>query\<close> whose retrieval step returns, with or without contexts,
  returns a response and appends exactly one entry to the conversation history, made of
  the question and the answer, sources and number of contexts of that response. The
  vector store, the embedding manager and the retriever are unchanged, and so are the key
  and the behaviour of the client; only the log of the service double can grow. \<open>query\<close>
  neither takes nor returns the file system of the saver, so it writes nothing to a store.
\<close>

theorem query_appends_one_entry:
  assumes "retriever rs q top_k threshold = Inr contexts"
  shows "fst (query pct rs q top_k threshold kw) = Inr (projr (fst (query pct rs q top_k threshold kw)))
       \<and> conversation_history (snd (query pct rs q top_k threshold kw)) =
           conversation_history rs @
             [\<lparr>conv_question = q,
               conv_answer = answer (projr (fst (query pct rs q top_k threshold kw))),
               conv_sources = sources (projr (fst (query pct rs q top_k threshold kw))),
               conv_num_contexts = num_contexts_used (projr (fst (query pct rs q top_k threshold kw)))\<rparr>]
       \<and> vector_store (snd (query pct rs q top_k threshold kw)) = vector_store rs
       \<and> embedding_manager (snd (query pct rs q top_k threshold kw)) = embedding_manager rs
       \<and> retriever (snd (query pct rs q top_k threshold kw)) = retriever rs
       \<and> api_key (llm_client (snd (query pct rs q top_k threshold kw))) = api_key (llm_client rs)
       \<and> create (llm_client (snd (query pct rs q top_k threshold kw))) = create (llm_client rs)"
proof (cases "contexts = []")
  case True
  with assms have "retriever rs q top_k threshold = Inr []" by simp
  then show ?thesis by (simp add: query_empty_branch)
next
  case False
  from query_synthesized_branch[OF assms False, of pct kw] generate_response_client
  show ?thesis by (simp add: history_entry_def call_generate_response_def)
qed

theorem query_appends_one_entry_witness:
  "retriever sample_rag ''why?'' 5 (1 / 2) = Inr sample_contexts
   \<and> conversation_history (snd (query sample_pct sample_rag ''why?'' 5 (1 / 2) no_kwargs)) =
       conversation_history sample_rag @
       [\<lparr>conv_question = ''why?'', conv_answer = ''It is so [1].'',
         conv_sources =
           [\<lparr>source_id = 1, src_file = PStr ''a.pdf'', page = PInt 3, similarity = 3 / 4\<rparr>,
            \<lparr>source_id = 2, src_file = PStr ''Unknown'', page = PStr ''N/A'', similarity = 1 / 2\<rparr>],
         conv_num_contexts = 2\<rparr>]
   \<and> vector_store (snd (query sample_pct sample_rag ''why?'' 5 (1 / 2) no_kwargs)) =
       vector_store sample_rag"
proof -
  have r: "retriever sample_rag ''why?'' 5 (1 / 2) = Inr sample_contexts"
    by (simp add: sample_rag_def)
  have ev: "projr (fst (query sample_pct sample_rag ''why?'' 5 (1 / 2) no_kwargs)) =
      \<lparr>answer = ''It is so [1].'',
       sources =
           [\<lparr>source_id = 1, src_file = PStr ''a.pdf'', page = PInt 3, similarity = 3 / 4\<rparr>,
            \<lparr>source_id = 2, src_file = PStr ''Unknown'', page = PStr ''N/A'', similarity = 1 / 2\<rparr>],
       model = Some ''llama-3.3-70b-versatile'', num_contexts_used = 2,
       avg_similarity = Some (5 / 8), question = Some ''why?'',
       retrieved_contexts = Some sample_contexts\<rparr>"
    by code_simp
  from query_appends_one_entry[OF r, of sample_pct no_kwargs] r show ?thesis
    unfolding ev by simp
qed

section \<open>Results about the conversation store\<close>

text \<open>
  C9. For a store name under which neither a database nor a configuration file exists,
  \<open>load_conversations_sqlite\<close> and \<open>search_conversations\<close> return the empty list,
  \<open>get_sqlite_stats\<close> returns the empty dictionary, and \<open>load_config_json\<close> fails with
  FileNotFoundError.
\<close>

theorem missing_store_results:
  assumes "db_files fs (db_path sv name) = None"
    and "json_files fs (config_path sv name) = None"
  shows "load_conversations_sqlite sv fs name limit = []
       \<and> search_conversations sv fs name query_text min_similarity = []
       \<and> get_sqlite_stats avg rnd sv fs name = None
       \<and> load_config_json sv fs name = Inl FileNotFoundError"
  using assms
  by (simp add: load_conversations_sqlite_def search_conversations_def get_sqlite_stats_def
      load_config_json_def)

theorem missing_store_results_witness:
  "db_files empty_fs (db_path sample_saver ''default'') = None
   \<and> json_files empty_fs (config_path sample_saver ''default'') = None
   \<and> load_conversations_sqlite sample_saver empty_fs ''default'' 20 = []
   \<and> search_conversations sample_saver empty_fs ''default'' ''invoice'' (nearest_double (6 / 10)) = []
   \<and> get_sqlite_stats (\<lambda>xs. py_truediv (py_sum xs) (length xs)) (\<lambda>x n. x)
        sample_saver empty_fs ''default'' = None
   \<and> load_config_json sample_saver empty_fs ''default'' = Inl FileNotFoundError"
proof -
  have d: "db_files empty_fs (db_path sample_saver ''default'') = None"
    by (simp add: empty_fs_def)
  have j: "json_files empty_fs (config_path sample_saver ''default'') = None"
    by (simp add: empty_fs_def)
  from missing_store_results[OF d j, where limit = 20 and query_text = "''invoice''"
      and min_similarity = "nearest_double (6 / 10)" and avg = "\<lambda>xs. py_truediv (py_sum xs) (length xs)" and rnd = "\<lambda>x n. x"] d j
  show ?thesis by simp
qed

lemma save_new_rows:
  "drop (length (conversations_tbl (stored_db sv fs name)))
     (conversations_tbl (stored_db sv
        (save_conversations_sqlite sv fs clock now rs name session_id) name)) =
   map (\<lambda>k. conversation_insert
              (next_id (map c_id (conversations_tbl (stored_db sv fs name))) + k) (clock k)
              (session_or_now session_id now) (conversation_history rs ! k))
     [0..<length (conversation_history rs)]"
  by (simp add: save_conversations_sqlite_stored save_loop_conversations)


text \<open>
  C10. Every row that \<open>save_conversations_sqlite\<close> adds to \<open>conversations\<close> has
  \<open>model_used = 'llama-3.3-70b-versatile'\<close>, whatever the history holds: an entry of the
  history has no field for the model, so a model passed to \<open>query\<close> does not reach the row.
\<close>

theorem stored_model_is_constant:
  "map c_model_used
     (drop (length (conversations_tbl (stored_db sv fs name)))
        (conversations_tbl (stored_db sv
           (save_conversations_sqlite sv fs clock now rs name session_id) name))) =
   replicate (length (conversation_history rs)) ''llama-3.3-70b-versatile''"
  by (simp add: save_new_rows conversation_insert_def comp_def map_replicate_const)

theorem stored_model_is_constant_witness:
  "model (projr (fst (query sample_pct sample_rag ''why?'' 5 (1 / 2) other_model_kwargs))) =
     Some ''mixtral-8x7b''
   \<and> map c_model_used (conversations_tbl (stored_db sample_saver
        (save_conversations_sqlite sample_saver empty_fs sample_clock ''2024-05-01T10:00:00''
           (snd (query sample_pct sample_rag ''why?'' 5 (1 / 2) other_model_kwargs))
           ''default'' None) ''default'')) =
     [''llama-3.3-70b-versatile'']"
proof -
  have m: "model (projr (fst (query sample_pct sample_rag ''why?'' 5 (1 / 2) other_model_kwargs))) =
     Some ''mixtral-8x7b''"
    by code_simp
  have len: "length (conversation_history
      (snd (query sample_pct sample_rag ''why?'' 5 (1 / 2) other_model_kwargs))) = 1"
    by code_simp
  have old: "conversations_tbl (stored_db sample_saver empty_fs ''default'') = []"
    by (simp add: stored_db_def empty_fs_def empty_db_def)
  from stored_model_is_constant[of sample_saver empty_fs "''default''" sample_clock
      "''2024-05-01T10:00:00''"
      "snd (query sample_pct sample_rag ''why?'' 5 (1 / 2) other_model_kwargs)" None]
  show ?thesis unfolding len old using m by simp
qed




text \<open>
  C1, evaluated where it fails. A question without retrieved contexts is logged with no
  sources and stored with \<open>avg_similarity = 0\<close>. Searching the store for \<open>invoice\<close> with
  \<open>min_similarity = 0.6\<close> returns that record: its question matches, and the threshold
  is tested only together with the match on the answer.
\<close>

theorem search_ignores_threshold_on_question_match:
  "search_conversations sample_saver
     (save_conversations_sqlite sample_saver empty_fs sample_clock ''2024-05-01T10:00:00''
        (snd (query sample_pct empty_rag ''invoice total?'' 5 (1 / 2) no_kwargs))
        ''default'' None)
     ''default'' ''invoice'' (nearest_double (6 / 10)) =
   [\<lparr>c_id = 1, c_created_at = 10, c_question = ''invoice total?'',
     c_answer = ''I could not find relevant information to answer this question.'',
     c_num_contexts = 0, c_avg_similarity = 0,
     c_model_used = ''llama-3.3-70b-versatile'', c_session_id = ''2024-05-01T10:00:00''\<rparr>]
   \<and> \<not> (nearest_double (6 / 10) \<le> c_avg_similarity (hd (search_conversations sample_saver
     (save_conversations_sqlite sample_saver empty_fs sample_clock ''2024-05-01T10:00:00''
        (snd (query sample_pct empty_rag ''invoice total?'' 5 (1 / 2) no_kwargs))
        ''default'' None)
     ''default'' ''invoice'' (nearest_double (6 / 10)))))"
  by code_simp

lemma filter_tagged:
  "filter (\<lambda>p. fst p = c) (map (\<lambda>s. (c', e s)) xs) = (if c' = c then map (\<lambda>s. (c', e s)) xs else [])"
  by (induction xs) simp_all

lemma filter_concat_tagged_none:
  "n \<le> k \<Longrightarrow>
   filter (\<lambda>p. fst p = b + k) (concat (map (\<lambda>j. map (\<lambda>s. (b + j, e s)) (F j)) [0..<n])) = []"
  by (induction n) (simp_all add: filter_tagged)

lemma filter_concat_tagged:
  "k < n \<Longrightarrow>
   filter (\<lambda>p. fst p = b + k) (concat (map (\<lambda>j. map (\<lambda>s. (b + j, e s)) (F j)) [0..<n])) =
     map (\<lambda>s. (b + k, e s)) (F k)"
proof (induction n)
  case 0
  then show ?case by simp
next
  case (Suc n)
  show ?case
  proof (cases "k = n")
    case True
    then show ?thesis by (simp add: filter_tagged filter_concat_tagged_none)
  next
    case False
    with Suc.prems have "k < n" by simp
    with Suc.IH False show ?thesis by (simp add: filter_tagged)
  qed
qed

lemma filter_by_conversation:
  "map (\<lambda>s. (s_source_file s, s_page s, s_similarity s))
     (filter (\<lambda>s. s_conversation_id s = c) xs) =
   map snd (filter (\<lambda>p. fst p = c)
     (map (\<lambda>s. (s_conversation_id s, s_source_file s, s_page s, s_similarity s)) xs))"
  by (induction xs) simp_all

lemma foreign_keys_below_next_id:
  assumes "foreign_keys_ok db" and "s \<in> set (sources_tbl db)"
  shows "s_conversation_id s < next_id (map c_id (conversations_tbl db))"
proof -
  from assms have "s_conversation_id s \<in> set (map c_id (conversations_tbl db))"
    by (simp add: foreign_keys_ok_def list_all_iff)
  then show ?thesis by (rule next_id_greater)
qed

lemma old_sources_not_selected:
  assumes "foreign_keys_ok db"
  shows "filter (\<lambda>p. fst p = next_id (map c_id (conversations_tbl db)) + k)
           (map (\<lambda>s. (s_conversation_id s, s_source_file s, s_page s, s_similarity s))
              (sources_tbl db)) = []"
proof -
  have "s_conversation_id s \<noteq> next_id (map c_id (conversations_tbl db)) + k"
    if "s \<in> set (sources_tbl db)" for s
    using foreign_keys_below_next_id[OF assms that] by simp
  then show ?thesis by (simp add: filter_empty_conv)
qed

lemma stored_sources_of_entry:
  assumes "foreign_keys_ok db" and "k < length h"
  shows "map (\<lambda>s. (s_source_file s, s_page s, s_similarity s))
           (filter (\<lambda>s. s_conversation_id s = next_id (map c_id (conversations_tbl db)) + k)
              (sources_tbl (save_loop clock sid i db h))) =
         map (\<lambda>s. (text_affinity (src_file s), text_affinity (page s), similarity s))
           (conv_sources (h ! k))"
proof -
  let ?b = "next_id (map c_id (conversations_tbl db))"
  have "map (\<lambda>s. (s_source_file s, s_page s, s_similarity s))
           (filter (\<lambda>s. s_conversation_id s = ?b + k) (sources_tbl (save_loop clock sid i db h))) =
        map snd (filter (\<lambda>p. fst p = ?b + k)
          (map (\<lambda>s. (s_conversation_id s, s_source_file s, s_page s, s_similarity s))
             (sources_tbl (save_loop clock sid i db h))))"
    by (rule filter_by_conversation)
  also have "\<dots> = map snd (filter (\<lambda>p. fst p = ?b + k)
      (concat (map (\<lambda>j. map (\<lambda>s. (?b + j,
                               text_affinity (src_file s), text_affinity (page s), similarity s))
                       (conv_sources (h ! j))) [0..<length h])))"
    by (simp only: save_loop_rows filter_append old_sources_not_selected[OF assms(1)] append_Nil)
  also have "\<dots> = map snd (map (\<lambda>s. (?b + k,
        text_affinity (src_file s), text_affinity (page s), similarity s)) (conv_sources (h ! k)))"
    by (simp only: filter_concat_tagged[OF assms(2)])
  also have "\<dots> = map (\<lambda>s. (text_affinity (src_file s), text_affinity (page s), similarity s))
           (conv_sources (h ! k))"
    by simp
  finally show ?thesis .
qed

lemma load_row_of_entry:
  assumes "foreign_keys_ok db" and "k < length h"
  shows "(\<lambda>r. (l_question r, l_answer r, l_num_contexts r,
               mset (map (\<lambda>s. (l_file s, l_page s, l_similarity s)) (l_sources r))))
           (load_row (save_loop clock sid i db h)
              (conversation_insert (next_id (map c_id (conversations_tbl db)) + k) stamp sid' (h ! k))) =
         (conv_question (h ! k), conv_answer (h ! k), conv_num_contexts (h ! k),
          mset (map (\<lambda>s. (text_affinity (src_file s), text_affinity (page s), similarity s))
                  (conv_sources (h ! k))))"
proof -
  have "map (\<lambda>s. (l_file s, l_page s, l_similarity s))
          (l_sources (load_row (save_loop clock sid i db h)
              (conversation_insert (next_id (map c_id (conversations_tbl db)) + k) stamp sid' (h ! k)))) =
        map (\<lambda>s. (s_source_file s, s_page s, s_similarity s))
           (filter (\<lambda>s. s_conversation_id s = next_id (map c_id (conversations_tbl db)) + k)
              (sources_tbl (save_loop clock sid i db h)))"
    by (simp add: load_row_def c_id_conversation_insert comp_def)
  with stored_sources_of_entry[OF assms, of clock sid i]
  show ?thesis by (simp add: load_row_def conversation_insert_def)
qed

lemma l_id_load_row: "l_id (load_row db c) = c_id c"
  by (simp add: load_row_def)

lemma foreign_keys_ok_empty: "foreign_keys_ok empty_db"
  by (simp add: foreign_keys_ok_def empty_db_def)

lemma insert_sources_conversation_ids:
  "set (map s_conversation_id (sources_tbl (insert_sources conv_id db srcs))) \<subseteq>
   insert conv_id (set (map s_conversation_id (sources_tbl db)))"
proof (induction srcs arbitrary: db)
  case Nil
  show ?case by auto
next
  case (Cons a srcs)
  have "set (map s_conversation_id (sources_tbl (insert_sources conv_id (insert_source conv_id db a) srcs)))
        \<subseteq> insert conv_id (set (map s_conversation_id (sources_tbl (insert_source conv_id db a))))"
    by (rule Cons.IH)
  also have "\<dots> = insert conv_id (set (map s_conversation_id (sources_tbl db)))"
    by (auto simp: insert_source_def source_insert_def)
  finally show ?case by simp
qed

lemma save_loop_foreign_keys:
  "foreign_keys_ok db \<Longrightarrow> foreign_keys_ok (save_loop clock sid i db h)"
proof (induction h arbitrary: i db)
  case Nil
  then show ?case by simp
next
  case (Cons c h)
  let ?n = "next_id (map c_id (conversations_tbl db))"
  let ?db1 = "db\<lparr>conversations_tbl := conversations_tbl db @ [conversation_insert ?n (clock i) sid c]\<rparr>"
  let ?db2 = "insert_sources ?n ?db1 (conv_sources c)"
  have "foreign_keys_ok ?db2"
    unfolding foreign_keys_ok_def list_all_iff
  proof
    fix s assume "s \<in> set (sources_tbl ?db2)"
    then have "s_conversation_id s \<in> set (map s_conversation_id (sources_tbl ?db2))"
      by simp
    with insert_sources_conversation_ids[of ?n ?db1 "conv_sources c"]
    have "s_conversation_id s = ?n \<or>
          s_conversation_id s \<in> set (map s_conversation_id (sources_tbl db))"
      by auto
    with Cons.prems
    show "s_conversation_id s \<in> set (map c_id (conversations_tbl ?db2))"
      by (auto simp: foreign_keys_ok_def list_all_iff insert_sources_conversations
          c_id_conversation_insert)
  qed
  then have "foreign_keys_ok (save_loop clock sid (Suc i) ?db2 h)" by (rule Cons.IH)
  then show ?case by (simp add: Let_def)
qed

lemma save_preserves_foreign_keys:
  "foreign_keys_ok (stored_db sv fs name) \<Longrightarrow>
   foreign_keys_ok (stored_db sv (save_conversations_sqlite sv fs clock now rs name session_id) name)"
  by (simp add: save_conversations_sqlite_stored save_loop_foreign_keys)

text \<open>
  C6, as amended. Let the stored database satisfy its foreign key (as every database
  written by \<open>save_conversations_sqlite\<close> does) and let the limit be at least the number of
  records in the store after the write. Then the records that \<open>load_conversations_sqlite\<close>
  reads back and that the write added are, one for one, the entries of the history: each
  carries the question, the answer and the number of contexts of its entry, and its
  sources are those of the entry up to order, the similarity unchanged and the file and
  the page as the \<open>TEXT\<close> columns keep them: \<open>None\<close> and text unchanged, an integer as its
  decimal text.
\<close>

theorem persist_load_round_trip:
  assumes "foreign_keys_ok (stored_db sv fs name)"
    and "int (length (conversations_tbl (stored_db sv fs name)) +
              length (conversation_history rs)) \<le> limit"
  shows "mset (map (\<lambda>r. (l_question r, l_answer r, l_num_contexts r,
                        mset (map (\<lambda>s. (l_file s, l_page s, l_similarity s)) (l_sources r))))
           (filter (\<lambda>r. next_id (map c_id (conversations_tbl (stored_db sv fs name))) \<le> l_id r)
              (load_conversations_sqlite sv
                 (save_conversations_sqlite sv fs clock now rs name session_id) name limit))) =
         mset (map (\<lambda>conv. (conv_question conv, conv_answer conv, conv_num_contexts conv,
                        mset (map (\<lambda>s. (text_affinity (src_file s), text_affinity (page s),
                                         similarity s)) (conv_sources conv))))
           (conversation_history rs))"
proof -
  let ?db = "stored_db sv fs name"
  let ?h = "conversation_history rs"
  let ?sid = "session_or_now session_id now"
  let ?db' = "save_loop clock ?sid 0 ?db ?h"
  let ?b = "next_id (map c_id (conversations_tbl ?db))"
  let ?new = "map (\<lambda>k. conversation_insert (?b + k) (clock (0 + k)) ?sid (?h ! k)) [0..<length ?h]"
  let ?proj = "\<lambda>r. (l_question r, l_answer r, l_num_contexts r,
                     mset (map (\<lambda>s. (l_file s, l_page s, l_similarity s)) (l_sources r)))"
  let ?eproj = "\<lambda>conv. (conv_question conv, conv_answer conv, conv_num_contexts conv,
                        mset (map (\<lambda>s. (text_affinity (src_file s), text_affinity (page s),
                                         similarity s)) (conv_sources conv)))"
  have tbl: "conversations_tbl ?db' = conversations_tbl ?db @ ?new"
    by (rule save_loop_conversations)
  have len: "length (conversations_tbl ?db') \<le> nat limit"
    using assms(2) by (simp add: tbl)
  have lim: "sql_limit limit (order_by_created_at_desc (conversations_tbl ?db')) =
             order_by_created_at_desc (conversations_tbl ?db')"
    using assms(2) len by (simp add: sql_limit_def order_by_created_at_desc_def)
  have loaded: "load_conversations_sqlite sv
                 (save_conversations_sqlite sv fs clock now rs name session_id) name limit =
        map (load_row ?db') (order_by_created_at_desc (conversations_tbl ?db'))"
    by (simp add: load_conversations_sqlite_def save_conversations_sqlite_exists
        save_conversations_sqlite_stored lim)
  have old: "filter (\<lambda>c. ?b \<le> c_id c) (conversations_tbl ?db) = []"
  proof -
    have "\<not> ?b \<le> c_id c" if "c \<in> set (conversations_tbl ?db)" for c
      using next_id_greater[of "c_id c" "map c_id (conversations_tbl ?db)"] that by simp
    then show ?thesis by (simp add: filter_empty_conv)
  qed
  have new: "filter (\<lambda>c. ?b \<le> c_id c) ?new = ?new"
    by (simp add: filter_id_conv c_id_conversation_insert)
  have "mset (map ?proj (filter (\<lambda>r. ?b \<le> l_id r)
          (map (load_row ?db') (order_by_created_at_desc (conversations_tbl ?db'))))) =
        mset (map ?proj (map (load_row ?db')
          (filter (\<lambda>c. ?b \<le> c_id c) (order_by_created_at_desc (conversations_tbl ?db')))))"
    by (simp add: filter_map comp_def l_id_load_row)
  also have "\<dots> = image_mset (\<lambda>c. ?proj (load_row ?db' c))
       (filter_mset (\<lambda>c. ?b \<le> c_id c) (mset (conversations_tbl ?db')))"
    by (simp add: order_by_created_at_desc_def comp_def)
  also have "\<dots> = image_mset (\<lambda>c. ?proj (load_row ?db' c)) (mset ?new)"
  proof -
    have "filter_mset (\<lambda>c. ?b \<le> c_id c) (mset (conversations_tbl ?db')) =
          mset (filter (\<lambda>c. ?b \<le> c_id c) (conversations_tbl ?db) @ filter (\<lambda>c. ?b \<le> c_id c) ?new)"
      unfolding tbl by simp
    also have "\<dots> = mset ?new" unfolding old new by simp
    finally show ?thesis by simp
  qed
  also have "\<dots> = mset (map (\<lambda>k. ?proj (load_row ?db'
        (conversation_insert (?b + k) (clock (0 + k)) ?sid (?h ! k)))) [0..<length ?h])"
    by (simp only: mset_map multiset.map_comp comp_def)
  also have "\<dots> = mset (map (\<lambda>k. ?eproj (?h ! k)) [0..<length ?h])"
  proof -
    have "map (\<lambda>k. ?proj (load_row ?db'
        (conversation_insert (?b + k) (clock (0 + k)) ?sid (?h ! k)))) [0..<length ?h] =
          map (\<lambda>k. ?eproj (?h ! k)) [0..<length ?h]"
    proof (rule map_cong[OF refl])
      fix k assume "k \<in> set [0..<length ?h]"
      then have k: "k < length ?h" by simp
      show "?proj (load_row ?db' (conversation_insert (?b + k) (clock (0 + k)) ?sid (?h ! k))) =
            ?eproj (?h ! k)"
        by (rule load_row_of_entry[OF assms(1) k])
    qed
    then show ?thesis by (simp only:)
  qed
  also have "\<dots> = mset (map ?eproj ?h)"
    by (rule arg_cong[of _ _ mset], rule nth_equalityI) simp_all
  finally show ?thesis unfolding loaded .
qed

theorem persist_load_round_trip_witness:
  "foreign_keys_ok (stored_db sample_saver empty_fs ''default'')
   \<and> int (length (conversations_tbl (stored_db sample_saver empty_fs ''default'')) +
           length (conversation_history
             (snd (query sample_pct sample_rag ''why?'' 5 (1 / 2) no_kwargs)))) \<le> 20
   \<and> load_conversations_sqlite sample_saver
        (save_conversations_sqlite sample_saver empty_fs sample_clock ''2024-05-01T10:00:00''
           (snd (query sample_pct sample_rag ''why?'' 5 (1 / 2) no_kwargs)) ''default'' None)
        ''default'' 20 =
      [\<lparr>l_id = 1, l_question = ''why?'', l_answer = ''It is so [1].'', l_num_contexts = 2,
        l_avg_similarity = 5 / 8, l_created_at = 10,
        l_sources =
          [\<lparr>l_file = PStr ''a.pdf'', l_page = PStr ''3'', l_similarity = 3 / 4\<rparr>,
           \<lparr>l_file = PStr ''Unknown'', l_page = PStr ''N/A'', l_similarity = 1 / 2\<rparr>]\<rparr>]"
proof -
  have fk: "foreign_keys_ok (stored_db sample_saver empty_fs ''default'')"
    by (simp add: stored_db_def empty_fs_def foreign_keys_ok_empty)
  have lim: "int (length (conversations_tbl (stored_db sample_saver empty_fs ''default'')) +
           length (conversation_history
             (snd (query sample_pct sample_rag ''why?'' 5 (1 / 2) no_kwargs)))) \<le> 20"
    by code_simp
  have ev: "load_conversations_sqlite sample_saver
        (save_conversations_sqlite sample_saver empty_fs sample_clock ''2024-05-01T10:00:00''
           (snd (query sample_pct sample_rag ''why?'' 5 (1 / 2) no_kwargs)) ''default'' None)
        ''default'' 20 =
      [\<lparr>l_id = 1, l_question = ''why?'', l_answer = ''It is so [1].'', l_num_contexts = 2,
        l_avg_similarity = 5 / 8, l_created_at = 10,
        l_sources =
          [\<lparr>l_file = PStr ''a.pdf'', l_page = PStr ''3'', l_similarity = 3 / 4\<rparr>,
           \<lparr>l_file = PStr ''Unknown'', l_page = PStr ''N/A'', l_similarity = 1 / 2\<rparr>]\<rparr>]"
    by code_simp
  from persist_load_round_trip[OF fk lim, of sample_clock "''2024-05-01T10:00:00''" None]
    fk lim ev
  show ?thesis by blast
qed

text \<open>
  C6 as stated fails: a source whose page is the integer 3 is read back with the page
  \<open>'3'\<close>, so the sources read back are not those of the entry.
\<close>

theorem round_trip_page_counterexample:
  "length (load_conversations_sqlite sample_saver
        (save_conversations_sqlite sample_saver empty_fs sample_clock ''2024-05-01T10:00:00''
           (snd (query sample_pct sample_rag ''why?'' 5 (1 / 2) no_kwargs)) ''default'' None)
        ''default'' 20) = 1
   \<and> length (conversation_history (snd (query sample_pct sample_rag ''why?'' 5 (1 / 2) no_kwargs))) = 1
   \<and> set (map loaded_source_fields (l_sources (hd (load_conversations_sqlite sample_saver
        (save_conversations_sqlite sample_saver empty_fs sample_clock ''2024-05-01T10:00:00''
           (snd (query sample_pct sample_rag ''why?'' 5 (1 / 2) no_kwargs)) ''default'' None)
        ''default'' 20)))) \<noteq>
     set (map source_fields (conv_sources (hd (conversation_history
           (snd (query sample_pct sample_rag ''why?'' 5 (1 / 2) no_kwargs))))))"
proof -
  have ev: "load_conversations_sqlite sample_saver
        (save_conversations_sqlite sample_saver empty_fs sample_clock ''2024-05-01T10:00:00''
           (snd (query sample_pct sample_rag ''why?'' 5 (1 / 2) no_kwargs)) ''default'' None)
        ''default'' 20 =
      [\<lparr>l_id = 1, l_question = ''why?'', l_answer = ''It is so [1].'', l_num_contexts = 2,
        l_avg_similarity = 5 / 8, l_created_at = 10,
        l_sources =
          [\<lparr>l_file = PStr ''a.pdf'', l_page = PStr ''3'', l_similarity = 3 / 4\<rparr>,
           \<lparr>l_file = PStr ''Unknown'', l_page = PStr ''N/A'', l_similarity = 1 / 2\<rparr>]\<rparr>]"
    by code_simp
  have hist: "conversation_history (snd (query sample_pct sample_rag ''why?'' 5 (1 / 2) no_kwargs)) =
      [\<lparr>conv_question = ''why?'', conv_answer = ''It is so [1].'',
         conv_sources =
           [\<lparr>source_id = 1, src_file = PStr ''a.pdf'', page = PInt 3, similarity = 3 / 4\<rparr>,
            \<lparr>source_id = 2, src_file = PStr ''Unknown'', page = PStr ''N/A'', similarity = 1 / 2\<rparr>],
         conv_num_contexts = 2\<rparr>]"
    by code_simp
  have "(PStr ''a.pdf'', PInt 3, 3 / 4) \<in>
          set (map source_fields (conv_sources (hd (conversation_history
           (snd (query sample_pct sample_rag ''why?'' 5 (1 / 2) no_kwargs))))))"
    unfolding hist by (simp add: source_fields_def)
  moreover have "(PStr ''a.pdf'', PInt 3, 3 / 4) \<notin>
          set (map loaded_source_fields (l_sources (hd (load_conversations_sqlite sample_saver
        (save_conversations_sqlite sample_saver empty_fs sample_clock ''2024-05-01T10:00:00''
           (snd (query sample_pct sample_rag ''why?'' 5 (1 / 2) no_kwargs)) ''default'' None)
        ''default'' 20))))"
    unfolding ev by (simp add: loaded_source_fields_def)
  ultimately have "set (map loaded_source_fields (l_sources (hd (load_conversations_sqlite sample_saver
        (save_conversations_sqlite sample_saver empty_fs sample_clock ''2024-05-01T10:00:00''
           (snd (query sample_pct sample_rag ''why?'' 5 (1 / 2) no_kwargs)) ''default'' None)
        ''default'' 20)))) \<noteq>
     set (map source_fields (conv_sources (hd (conversation_history
           (snd (query sample_pct sample_rag ''why?'' 5 (1 / 2) no_kwargs))))))"
    by blast
  moreover have "length (load_conversations_sqlite sample_saver
        (save_conversations_sqlite sample_saver empty_fs sample_clock ''2024-05-01T10:00:00''
           (snd (query sample_pct sample_rag ''why?'' 5 (1 / 2) no_kwargs)) ''default'' None)
        ''default'' 20) = 1"
    unfolding ev by simp
  moreover have "length (conversation_history
      (snd (query sample_pct sample_rag ''why?'' 5 (1 / 2) no_kwargs))) = 1"
    unfolding hist by simp
  ultimately show ?thesis by blast
qed

end
